theory Spec2Isabelle
  imports Main "HOL-Library.Word"
begin

unbundle bit_operations_syntax

section \<open>EdDSA over a twisted Edwards curve (package eddsa)\<close>

text \<open>
  A shallow embedding of \<^verbatim>\<open>GenerateKey\<close>, \<^verbatim>\<open>PrivateKey.Sign\<close> and \<^verbatim>\<open>Verify\<close>.
  The curve arithmetic (package \<^verbatim>\<open>twistededwards\<close>), the field element type and the
  512-bit hash (\<^verbatim>\<open>blake2b.Sum512\<close>) are imported by the source from other
  repositories; they are taken as parameters, collected in the record \<open>env\<close>.
  Fixed-size Go arrays (\<^verbatim>\<open>[32]byte\<close>, \<^verbatim>\<open>[64]byte\<close>) are byte lists of that length.
\<close>

subsection \<open>Constants\<close>

type_synonym byte = "8 word"

definition sizeFr :: nat where
  "sizeFr = 32"

definition sizePublicKey :: nat where
  "sizePublicKey = 2 * sizeFr"

definition sizeSignature :: nat where
  "sizeSignature = 3 * sizeFr"

definition sizePrivateKey :: nat where
  "sizePrivateKey = 3 * sizeFr + 32"

subsection \<open>Data\<close>

datatype error = errNotOnCurve | errOther string

record 'f PointAffine =
  X :: 'f
  Y :: 'f

record 'f PublicKey =
  A :: "'f PointAffine"

record 'f PrivateKey =
  PublicKey :: "'f PublicKey"
  scalar :: "byte list"
  randSrc :: "byte list"

record 'f Signature =
  R :: "'f PointAffine"
  S :: "byte list"

text \<open>The Go zero value \<^verbatim>\<open>Signature{}\<close>: every field element and every byte is zero.\<close>

definition Signature_zero :: "('f::zero) Signature" where
  "Signature_zero = \<lparr>R = \<lparr>X = 0, Y = 0\<rparr>, S = replicate sizeFr 0\<rparr>"

subsection \<open>What the package imports\<close>

record 'f CurveParams =
  Cofactor :: 'f
  Order :: int
  Base :: "'f PointAffine"

text \<open>
  \<open>ScalarMul tw p k\<close> is the value the receiver holds after \<^verbatim>\<open>z.ScalarMul(&p, &k)\<close>, and
  \<open>Add tw p q\<close> after \<^verbatim>\<open>z.Add(&p, &q)\<close>. \<open>fr_Bytes\<close> is \<^verbatim>\<open>Element.Bytes\<close>, \<open>fr_ToBigInt\<close> is
  \<^verbatim>\<open>Element.ToBigInt\<close>, \<open>Sum512\<close> is \<^verbatim>\<open>blake2b.Sum512\<close>.
\<close>

record 'f env =
  GetEdwardsCurve :: "'f CurveParams"
  ScalarMul :: "'f PointAffine \<Rightarrow> int \<Rightarrow> 'f PointAffine"
  Add :: "'f PointAffine \<Rightarrow> 'f PointAffine \<Rightarrow> 'f PointAffine"
  IsOnCurve :: "'f PointAffine \<Rightarrow> bool"
  fr_Bytes :: "'f \<Rightarrow> byte list"
  fr_ToBigInt :: "'f \<Rightarrow> int"
  Sum512 :: "byte list \<Rightarrow> byte list"

text \<open>
  A \<^verbatim>\<open>hash.Hash\<close> object with its state made explicit: \<open>Reset\<close> and \<open>Write\<close> return the
  new state, \<open>Write\<close> also the error it reports, \<open>Sum\<close> appends the digest to its argument.
\<close>

record 'h Hash =
  Reset :: "'h \<Rightarrow> 'h"
  Write :: "'h \<Rightarrow> byte list \<Rightarrow> error option \<times> 'h"
  Sum :: "'h \<Rightarrow> byte list \<Rightarrow> byte list"

subsection \<open>math/big and the builtin copy\<close>

text \<open>\<^verbatim>\<open>big.Int.SetBytes\<close>: the bytes read as a big-endian unsigned integer.\<close>

definition SetBytes :: "byte list \<Rightarrow> int" where
  "SetBytes bs = foldl (\<lambda>acc b. acc * 256 + uint b) 0 bs"

text \<open>\<^verbatim>\<open>big.Int.Bytes\<close>: the absolute value as a big-endian byte slice with no leading zero.\<close>

function mag_Bytes :: "int \<Rightarrow> byte list" where
  "mag_Bytes x = (if x \<le> 0 then [] else mag_Bytes (x div 256) @ [word_of_int (x mod 256)])"
  by pat_completeness auto
termination
  by (relation "measure nat") auto

declare mag_Bytes.simps [simp del]

definition Bytes :: "int \<Rightarrow> byte list" where
  "Bytes x = mag_Bytes \<bar>x\<bar>"

text \<open>
  \<^verbatim>\<open>copy(dst, src)\<close> writes the first \<open>min (len dst) (len src)\<close> bytes of \<open>src\<close> over
  the start of \<open>dst\<close>; \<open>copy_at off dst src\<close> is \<^verbatim>\<open>copy(dst[off:], src)\<close>.
\<close>

definition copy :: "'a list \<Rightarrow> 'a list \<Rightarrow> 'a list" where
  "copy dst src = take (length dst) src @ drop (length src) dst"

definition copy_at :: "nat \<Rightarrow> 'a list \<Rightarrow> 'a list \<Rightarrow> 'a list" where
  "copy_at off dst src = take off dst @ copy (drop off dst) src"

subsection \<open>GenerateKey\<close>

text \<open>
  The loop \<^verbatim>\<open>for i, j := 0, sizeFr; i < j; i, j = i+1, j-1 { h[i], h[j] = h[j], h[i] }\<close>.
\<close>

function swap_loop :: "nat \<Rightarrow> nat \<Rightarrow> byte list \<Rightarrow> byte list" where
  "swap_loop i j h =
     (if i < j then swap_loop (i + 1) (j - 1) (h[i := h ! j, j := h ! i]) else h)"
  by pat_completeness auto
termination
  by (relation "measure (\<lambda>(i, j, h). j - i)") auto

declare swap_loop.simps [simp del]

text \<open>The pruning of the digest: \<^verbatim>\<open>h[0] &= 0xF8; h[31] &= 0x7F; h[31] |= 0x40\<close>.\<close>

definition prune :: "byte list \<Rightarrow> byte list" where
  "prune h =
     (let h1 = h[0 := (h ! 0) AND 0xF8];
          h2 = h1[31 := (h1 ! 31) AND 0x7F];
          h3 = h2[31 := (h2 ! 31) OR 0x40]
      in h3)"

definition GenerateKey :: "'f env \<Rightarrow> byte list \<Rightarrow> 'f PublicKey \<times> 'f PrivateKey" where
  "GenerateKey tw seed =
     (let c = GetEdwardsCurve tw;
          h = Sum512 tw seed;
          priv_randSrc = map (\<lambda>i. h ! (i + 32)) [0..<32];
          h = prune h;
          h = swap_loop 0 sizeFr h;
          priv_scalar = take sizeFr h;
          bscalar = SetBytes priv_scalar;
          pub = \<lparr>A = ScalarMul tw (Base c) bscalar\<rparr>
      in (pub, \<lparr>PublicKey = pub, scalar = priv_scalar, randSrc = priv_randSrc\<rparr>))"

text \<open>\<^verbatim>\<open>PrivateKey.Public\<close>.\<close>

definition Public :: "'f PrivateKey \<Rightarrow> 'f PublicKey" where
  "Public privKey = PublicKey privKey"

subsection \<open>Sign\<close>

text \<open>
  The blinding factor: \<^verbatim>\<open>randSrc\<close> is a fresh buffer of \<open>32 + len(message)\<close> bytes, filled
  with the private key's \<open>randSrc\<close> and then the message; the first \<open>sizeFr\<close> bytes of its
  512-bit digest are read as a big-endian integer.
\<close>

definition blindingFactor :: "'f env \<Rightarrow> 'f PrivateKey \<Rightarrow> byte list \<Rightarrow> int" where
  "blindingFactor tw privKey message =
     (let buf = replicate (32 + length message) 0;
          buf = copy buf (randSrc privKey);
          buf = copy_at 32 buf message;
          blindingFactorBytes = Sum512 tw buf
      in SetBytes (take sizeFr blindingFactorBytes))"

text \<open>
  The buffer \<^verbatim>\<open>dataToHash\<close>, which \<^verbatim>\<open>Sign\<close> and \<^verbatim>\<open>Verify\<close> fill with the same five
  \<^verbatim>\<open>copy\<close> statements: the point's coordinates, the public key's, the message.
\<close>

definition dataToHash :: "'f env \<Rightarrow> 'f PointAffine \<Rightarrow> 'f PointAffine \<Rightarrow> byte list \<Rightarrow> byte list" where
  "dataToHash tw pr pa message =
     (let d = replicate (4 * sizeFr + length message) 0;
          d = copy d (fr_Bytes tw (X pr));
          d = copy_at sizeFr d (fr_Bytes tw (Y pr));
          d = copy_at (2 * sizeFr) d (fr_Bytes tw (X pa));
          d = copy_at (3 * sizeFr) d (fr_Bytes tw (Y pa));
          d = copy_at (4 * sizeFr) d message
      in d)"

text \<open>
  \<^verbatim>\<open>bs.Mul(&hramInt, &bscalar).Add(&bs, &blindingFactorBigInt).Mod(&bs, &curveParams.Order)\<close>.
  \<^verbatim>\<open>big.Int.Mod\<close> is the Euclidean modulus and panics when the modulus is zero: \<open>None\<close>.
\<close>

definition Sign_bs :: "int \<Rightarrow> int \<Rightarrow> int \<Rightarrow> int \<Rightarrow> int option" where
  "Sign_bs hramInt bscalar blindingFactorBigInt order =
     (if order = 0 then None
      else Some ((hramInt * bscalar + blindingFactorBigInt) mod \<bar>order\<bar>))"

text \<open>
  The encoding of \<open>bs\<close> into \<^verbatim>\<open>res.S\<close>: left-padded to \<open>sizeFr\<close> bytes when shorter, then
  copied into the 32-byte array.
\<close>

definition Sign_S :: "int \<Rightarrow> byte list" where
  "Sign_S bs =
     (let sb = Bytes bs;
          sb = (if length sb < sizeFr then replicate (sizeFr - length sb) 0 @ sb else sb)
      in copy (replicate sizeFr 0) sb)"

text \<open>
  \<^verbatim>\<open>Sign\<close> returns the signature, the error and the hash object's new state;
  \<open>None\<close> is the run-time panic of \<^verbatim>\<open>Mod\<close>.
\<close>

definition Sign ::
  "('f::zero) env \<Rightarrow> 'h Hash \<Rightarrow> 'f PrivateKey \<Rightarrow> byte list \<Rightarrow> 'h
     \<Rightarrow> (('f Signature \<times> error option) \<times> 'h) option" where
  "Sign tw hFunc privKey message st =
     (let curveParams = GetEdwardsCurve tw;
          blindingFactorBigInt = blindingFactor tw privKey message;
          res_R = ScalarMul tw (Base curveParams) blindingFactorBigInt
      in if \<not> IsOnCurve tw res_R then Some ((Signature_zero, Some errNotOnCurve), st)
         else
           let d = dataToHash tw res_R (A (PublicKey privKey)) message;
               st1 = Reset hFunc st;
               (err, st2) = Write hFunc st1 d
           in case err of
                Some e \<Rightarrow> Some ((Signature_zero, Some e), st2)
              | None \<Rightarrow>
                  let hramInt = SetBytes (Sum hFunc st2 []);
                      bscalar = SetBytes (scalar privKey)
                  in (case Sign_bs hramInt bscalar blindingFactorBigInt (Order curveParams) of
                        None \<Rightarrow> None
                      | Some bs \<Rightarrow> Some ((\<lparr>R = res_R, S = Sign_S bs\<rparr>, None), st2)))"

subsection \<open>Verify\<close>

text \<open>\<^verbatim>\<open>lhs.ScalarMul(&curveParams.Base, &bs).ScalarMul(&lhs, &bCofactor)\<close>.\<close>

definition Verify_lhs :: "'f env \<Rightarrow> 'f Signature \<Rightarrow> 'f PointAffine" where
  "Verify_lhs tw sig =
     (let curveParams = GetEdwardsCurve tw;
          bCofactor = fr_ToBigInt tw (Cofactor curveParams);
          bs = SetBytes (S sig)
      in ScalarMul tw (ScalarMul tw (Base curveParams) bs) bCofactor)"

text \<open>\<^verbatim>\<open>rhs.ScalarMul(&pub.A, &hramInt).Add(&rhs, &sig.R).ScalarMul(&rhs, &bCofactor)\<close>.\<close>

definition Verify_rhs :: "'f env \<Rightarrow> 'f Signature \<Rightarrow> 'f PublicKey \<Rightarrow> int \<Rightarrow> 'f PointAffine" where
  "Verify_rhs tw sig pub hramInt =
     (let curveParams = GetEdwardsCurve tw;
          bCofactor = fr_ToBigInt tw (Cofactor curveParams)
      in ScalarMul tw (Add tw (ScalarMul tw (A pub) hramInt) (R sig)) bCofactor)"

definition Verify ::
  "'f env \<Rightarrow> 'h Hash \<Rightarrow> 'f Signature \<Rightarrow> byte list \<Rightarrow> 'f PublicKey \<Rightarrow> 'h
     \<Rightarrow> (bool \<times> error option) \<times> 'h" where
  "Verify tw hFunc sig message pub st =
     (if \<not> IsOnCurve tw (A pub) then ((False, Some errNotOnCurve), st)
      else
        let d = dataToHash tw (R sig) (A pub) message;
            st1 = Reset hFunc st;
            (err, st2) = Write hFunc st1 d
        in case err of
             Some e \<Rightarrow> ((False, Some e), st2)
           | None \<Rightarrow>
               let hramInt = SetBytes (Sum hFunc st2 []);
                   lhs = Verify_lhs tw sig
               in if \<not> IsOnCurve tw lhs then ((False, Some errNotOnCurve), st2)
                  else
                    let rhs = Verify_rhs tw sig pub hramInt
                    in if \<not> IsOnCurve tw rhs then ((False, Some errNotOnCurve), st2)
                       else if X lhs \<noteq> X rhs \<or> Y lhs \<noteq> Y rhs then ((False, None), st2)
                       else ((True, None), st2))"

subsection \<open>A mock curve and mock hash functions\<close>

text \<open>
  Concrete instances of the imported interfaces, on which the functions above can be
  evaluated: the additive group of pairs of integers modulo \<open>q\<close> with base point \<open>(1, 0)\<close>
  stands in for the curve, with the on-curve test left open. \<open>blake2b_zero_seed\<close> is the
  BLAKE2b-512 digest of 32 zero bytes.
\<close>

definition blake2b_zero_seed :: "byte list" where
  "blake2b_zero_seed =
     [154, 183, 167, 58, 151, 161, 163, 3, 20, 6, 182, 193, 105, 99, 74, 156,
      6, 207, 184, 29, 236, 51, 35, 187, 77, 229, 206, 111, 75, 124, 161, 7,
      222, 83, 68, 66, 167, 234, 234, 251, 175, 54, 108, 207, 221, 225, 203, 151,
      215, 200, 132, 228, 52, 76, 208, 162, 48, 57, 222, 113, 165, 109, 99, 10]"

definition mock_Sum512 :: "byte list \<Rightarrow> byte list" where
  "mock_Sum512 bs =
     (if bs = replicate 32 0 then blake2b_zero_seed
      else take 64 (map (\<lambda>b. b XOR 0x5C) bs @ replicate 64 0x36))"

definition mock_order :: int where
  "mock_order = 2736030358979909402780800718157159386076813972158567259200215660948447373041"

definition mock_env :: "int \<Rightarrow> (int PointAffine \<Rightarrow> bool) \<Rightarrow> int env" where
  "mock_env q onCurve =
     \<lparr>GetEdwardsCurve = \<lparr>Cofactor = 8, Order = q, Base = \<lparr>X = 1, Y = 0\<rparr>\<rparr>,
      ScalarMul = (\<lambda>p k. \<lparr>X = (X p * k) mod q, Y = (Y p * k) mod q\<rparr>),
      Add = (\<lambda>p r. \<lparr>X = (X p + X r) mod q, Y = (Y p + Y r) mod q\<rparr>),
      IsOnCurve = onCurve,
      fr_Bytes = Sign_S,
      fr_ToBigInt = (\<lambda>e. e),
      Sum512 = mock_Sum512\<rparr>"

definition mock_Hash :: "(byte list) Hash" where
  "mock_Hash =
     \<lparr>Reset = (\<lambda>st. []),
      Write = (\<lambda>st d. (None, st @ d)),
      Sum = (\<lambda>st b. b @ [foldr (+) st 0, of_nat (length st)])\<rparr>"

definition failing_Hash :: "(byte list) Hash" where
  "failing_Hash =
     \<lparr>Reset = (\<lambda>st. []),
      Write = (\<lambda>st d. (Some (errOther ''write failed''), st)),
      Sum = (\<lambda>st b. b)\<rparr>"

text \<open>
  The inputs on which the functions are evaluated below: the mock curve whose points are
  the pairs with second coordinate 0, the seed of 32 zero bytes and the key pair made
  from it, the message \<^verbatim>\<open>"test"\<close>, and the signature \<^verbatim>\<open>Sign\<close> computes for them.
\<close>

definition mock_tw :: "int env" where
  "mock_tw = mock_env mock_order (\<lambda>p. Y p = 0)"

definition zero_seed :: "byte list" where
  "zero_seed = replicate 32 0"

definition test_message :: "byte list" where
  "test_message = [116, 101, 115, 116]"

definition mock_sig :: "int Signature" where
  "mock_sig =
     \<lparr>R = \<lparr>X = 1370701960437480966263694782345944858406534161710393957772278419852300455313, Y = 0\<rparr>,
      S = [5, 160, 51, 171, 50, 246, 208, 85, 175, 234, 66, 58, 136, 185, 175, 71,
           113, 79, 25, 224, 35, 198, 248, 188, 194, 222, 115, 51, 70, 30, 194, 134]\<rparr>"

definition mock_key :: "int PublicKey \<times> int PrivateKey" where
  "mock_key = GenerateKey mock_tw zero_seed"


text \<open>The state in which \<^verbatim>\<open>Sign\<close> leaves the mock hash object: the data written.\<close>

definition mock_st :: "byte list" where
  "mock_st = dataToHash mock_tw (R mock_sig) (A (fst mock_key)) test_message"

subsection \<open>Big-endian values, as the specification words them\<close>

text \<open>
  The value of a byte string read as a non-negative big-endian integer: byte \<open>i\<close> of \<open>n\<close>
  bytes has weight \<open>256 ^ (n - 1 - i)\<close>.
\<close>

definition big_endian_value :: "byte list \<Rightarrow> int" where
  "big_endian_value bs = (\<Sum>i<length bs. uint (bs ! i) * 256 ^ (length bs - 1 - i))"

subsection \<open>The verification equation, as the specification words it\<close>

text \<open>
  \<open>lhs = cofactor \<cdot> (s \<cdot> Base)\<close> and \<open>rhs = cofactor \<cdot> (R + c \<cdot> A)\<close>, written with the
  imported operations.
\<close>

definition cofactor_times :: "'f env \<Rightarrow> 'f PointAffine \<Rightarrow> 'f PointAffine" where
  "cofactor_times tw p = ScalarMul tw p (fr_ToBigInt tw (Cofactor (GetEdwardsCurve tw)))"

definition spec_lhs :: "'f env \<Rightarrow> int \<Rightarrow> 'f PointAffine" where
  "spec_lhs tw s = cofactor_times tw (ScalarMul tw (Base (GetEdwardsCurve tw)) s)"

definition spec_rhs :: "'f env \<Rightarrow> 'f PointAffine \<Rightarrow> 'f PointAffine \<Rightarrow> int \<Rightarrow> 'f PointAffine" where
  "spec_rhs tw pr pa c = cofactor_times tw (Add tw pr (ScalarMul tw pa c))"

section \<open>Auxiliary facts\<close>

subsection \<open>Byte strings and integers\<close>

lemma foldl_SetBytes: "foldl (\<lambda>acc b. acc * 256 + uint b) a bs = a * 256 ^ length bs + foldl (\<lambda>acc (b::byte). acc * 256 + uint b) 0 bs"
proof (induction bs arbitrary: a)
  case Nil
  then show ?case by simp
next
  case (Cons b bs)
  have "foldl (\<lambda>acc b. acc * 256 + uint b) a (b # bs) = foldl (\<lambda>acc b. acc * 256 + uint b) (a * 256 + uint b) bs"
    by simp
  also have "\<dots> = (a * 256 + uint b) * 256 ^ length bs + foldl (\<lambda>acc (b::byte). acc * 256 + uint b) 0 bs"
    by (rule Cons.IH)
  also have "foldl (\<lambda>acc (b::byte). acc * 256 + uint b) 0 (b # bs) = uint b * 256 ^ length bs + foldl (\<lambda>acc (b::byte). acc * 256 + uint b) 0 bs"
    using Cons.IH [of "uint b"] by simp
  ultimately show ?case by (simp add: algebra_simps)
qed

lemma SetBytes_Nil: "SetBytes [] = 0"
  by (simp add: SetBytes_def)

lemma SetBytes_append: "SetBytes (xs @ ys) = SetBytes xs * 256 ^ length ys + SetBytes ys"
  unfolding SetBytes_def foldl_append by (rule foldl_SetBytes)

lemma SetBytes_Cons: "SetBytes (b # bs) = uint b * 256 ^ length bs + SetBytes bs"
  using SetBytes_append [of "[b]" bs] by (simp add: SetBytes_def)

lemma SetBytes_snoc: "SetBytes (bs @ [b]) = SetBytes bs * 256 + uint b"
  by (simp add: SetBytes_def)

lemma SetBytes_replicate_0: "SetBytes (replicate n 0 @ bs) = SetBytes bs"
  by (induction n) (simp_all add: SetBytes_Cons)

lemma SetBytes_nonneg: "0 \<le> SetBytes bs"
  by (induction bs rule: rev_induct) (simp_all add: SetBytes_Nil SetBytes_snoc)

lemma SetBytes_big_endian: "SetBytes bs = big_endian_value bs"
proof (induction bs)
  case Nil
  then show ?case by (simp add: SetBytes_Nil big_endian_value_def)
next
  case (Cons b bs)
  have "big_endian_value (b # bs) = uint b * 256 ^ length bs + big_endian_value bs"
    unfolding big_endian_value_def
    by (simp add: sum.lessThan_Suc_shift del: sum.lessThan_Suc)
  with Cons show ?case by (simp add: SetBytes_Cons)
qed

lemma uint_byte_of_mod: "uint (word_of_int (x mod 256) :: byte) = x mod 256"
  by (simp add: uint_word_of_int)

lemma mag_Bytes_nonpos: "x \<le> 0 \<Longrightarrow> mag_Bytes x = []"
  by (subst mag_Bytes.simps) simp

lemma mag_Bytes_pos: "0 < x \<Longrightarrow> mag_Bytes x = mag_Bytes (x div 256) @ [word_of_int (x mod 256)]"
  by (subst mag_Bytes.simps) simp

lemma SetBytes_mag_Bytes: "0 \<le> x \<Longrightarrow> SetBytes (mag_Bytes x) = x"
proof (induction x rule: mag_Bytes.induct)
  case (1 x)
  show ?case
  proof (cases "x \<le> 0")
    case True
    with "1.prems" show ?thesis by (simp add: mag_Bytes_nonpos SetBytes_Nil)
  next
    case False
    then have "SetBytes (mag_Bytes (x div 256)) = x div 256"
      using "1.IH" by simp
    with False show ?thesis
      by (simp add: mag_Bytes_pos SetBytes_snoc uint_byte_of_mod)
  qed
qed

lemma length_mag_Bytes: "x < 256 ^ n \<Longrightarrow> length (mag_Bytes x) \<le> n"
proof (induction x arbitrary: n rule: mag_Bytes.induct)
  case (1 x)
  show ?case
  proof (cases "x \<le> 0")
    case True
    then show ?thesis by (simp add: mag_Bytes_nonpos)
  next
    case False
    with "1.prems" obtain m where n: "n = Suc m"
      by (cases n) auto
    from "1.prems" n have "x < 256 * (256 ^ m :: int)"
      by simp
    then have "x div 256 < 256 ^ m"
      by linarith
    with False "1.IH" [of m] have "length (mag_Bytes (x div 256)) \<le> m"
      by simp
    with False n show ?thesis by (simp add: mag_Bytes_pos)
  qed
qed

subsection \<open>The loop and the pruning of GenerateKey\<close>

lemma length_swap_loop: "length (swap_loop i j h) = length h"
proof (induction i j h rule: swap_loop.induct)
  case (1 i j h)
  show ?case
  proof (cases "i < j")
    case True
    with 1 show ?thesis by (subst swap_loop.simps) simp
  next
    case False
    then show ?thesis by (subst swap_loop.simps) simp
  qed
qed

lemma swap_loop_nth:
  "j < length h \<Longrightarrow> k < length h \<Longrightarrow>
   swap_loop i j h ! k = (if i \<le> k \<and> k \<le> j then h ! (i + j - k) else h ! k)"
proof (induction i j h rule: swap_loop.induct)
  case (1 i j h)
  show ?case
  proof (cases "i < j")
    case False
    then have "swap_loop i j h = h" by (subst swap_loop.simps) simp
    moreover from False have "i \<le> k \<and> k \<le> j \<Longrightarrow> i + j - k = k" by arith
    ultimately show ?thesis by auto
  next
    case True
    let ?h = "h[i := h ! j, j := h ! i]"
    have step: "swap_loop i j h = swap_loop (i + 1) (j - 1) ?h"
      using True by (subst swap_loop.simps) simp
    have IH: "swap_loop (i + 1) (j - 1) ?h ! k =
        (if i + 1 \<le> k \<and> k \<le> j - 1 then ?h ! (i + 1 + (j - 1) - k) else ?h ! k)"
      using "1.IH" [OF True] "1.prems" True by simp
    show ?thesis
      unfolding step IH using True "1.prems"
      by (auto simp: nth_list_update)
  qed
qed

lemma length_prune: "length (prune h) = length h"
  by (simp add: prune_def Let_def)

lemma GenerateKey_scalar:
  assumes "length (Sum512 tw seed) = 64"
  shows "scalar (snd (GenerateKey tw seed)) = map (\<lambda>k. prune (Sum512 tw seed) ! (32 - k)) [0..<32]"
proof (rule nth_equalityI)
  show "length (scalar (snd (GenerateKey tw seed))) = length (map (\<lambda>k. prune (Sum512 tw seed) ! (32 - k)) [0..<32])"
    using assms by (simp add: GenerateKey_def Let_def sizeFr_def length_swap_loop length_prune)
next
  fix k assume "k < length (scalar (snd (GenerateKey tw seed)))"
  then have k: "k < 32"
    using assms by (simp add: GenerateKey_def Let_def sizeFr_def length_swap_loop length_prune)
  then show "scalar (snd (GenerateKey tw seed)) ! k = map (\<lambda>k. prune (Sum512 tw seed) ! (32 - k)) [0..<32] ! k"
    using assms by (simp add: GenerateKey_def Let_def sizeFr_def swap_loop_nth length_prune del: upt_Suc)
qed

lemma GenerateKey_randSrc:
  assumes "length (Sum512 tw seed) = 64"
  shows "randSrc (snd (GenerateKey tw seed)) = drop 32 (Sum512 tw seed)"
  using assms by (auto simp: GenerateKey_def Let_def add.commute intro!: nth_equalityI simp del: upt_Suc)

subsection \<open>The paths through Verify and Sign\<close>

lemma Verify_A_off_curve:
  "\<not> IsOnCurve tw (A pub) \<Longrightarrow> Verify tw hFunc sig message pub st = ((False, Some errNotOnCurve), st)"
  by (simp add: Verify_def)

lemma Verify_after_Write:
  assumes "IsOnCurve tw (A pub)"
    and "Write hFunc (Reset hFunc st) (dataToHash tw (R sig) (A pub) message) = (None, st2)"
  shows "Verify tw hFunc sig message pub st =
     (let lhs = Verify_lhs tw sig;
          rhs = Verify_rhs tw sig pub (SetBytes (Sum hFunc st2 []))
      in if \<not> IsOnCurve tw lhs \<or> \<not> IsOnCurve tw rhs then ((False, Some errNotOnCurve), st2)
         else ((lhs = rhs, None), st2))"
  using assms by (auto simp: Verify_def Let_def PointAffine.equality)

lemma Sign_R_off_curve:
  "\<not> IsOnCurve tw (ScalarMul tw (Base (GetEdwardsCurve tw)) (blindingFactor tw privKey message)) \<Longrightarrow>
   Sign tw hFunc privKey message st = Some ((Signature_zero, Some errNotOnCurve), st)"
  by (simp add: Sign_def Let_def)

lemma Sign_after_Write:
  assumes "IsOnCurve tw (ScalarMul tw (Base (GetEdwardsCurve tw)) (blindingFactor tw privKey message))"
    and "Write hFunc (Reset hFunc st)
           (dataToHash tw (ScalarMul tw (Base (GetEdwardsCurve tw)) (blindingFactor tw privKey message))
              (A (PublicKey privKey)) message) = (err, st2)"
  shows "Sign tw hFunc privKey message st =
     (case err of
        Some e \<Rightarrow> Some ((Signature_zero, Some e), st2)
      | None \<Rightarrow>
          (case Sign_bs (SetBytes (Sum hFunc st2 [])) (SetBytes (scalar privKey))
                  (blindingFactor tw privKey message) (Order (GetEdwardsCurve tw)) of
             None \<Rightarrow> None
           | Some bs \<Rightarrow>
               Some ((\<lparr>R = ScalarMul tw (Base (GetEdwardsCurve tw)) (blindingFactor tw privKey message),
                       S = Sign_S bs\<rparr>, None), st2)))"
  using assms by (simp add: Sign_def Let_def split: option.splits)

lemma mag_Bytes_eq_Nil: "mag_Bytes x = [] \<longleftrightarrow> x \<le> 0"
  by (subst mag_Bytes.simps) simp

lemma mag_Bytes_no_leading_zero: "0 < x \<Longrightarrow> hd (mag_Bytes x) \<noteq> 0"
proof (induction x rule: mag_Bytes.induct)
  case (1 x)
  show ?case
  proof (cases "x div 256 \<le> 0")
    case True
    with "1.prems" have small: "x < 256" "0 < x"
      by simp_all
    then have "uint (word_of_int x :: byte) = x"
      by (simp add: uint_word_of_int)
    with small have "(word_of_int x :: byte) \<noteq> 0"
      by (metis less_irrefl uint_0_eq)
    with True "1.prems" small show ?thesis
      by (simp add: mag_Bytes_pos mag_Bytes_nonpos)
  next
    case False
    with "1.prems" "1.IH" have "hd (mag_Bytes (x div 256)) \<noteq> 0"
      by simp
    moreover from False have "mag_Bytes (x div 256) \<noteq> []"
      by (simp add: mag_Bytes_eq_Nil)
    ultimately show ?thesis
      using "1.prems" by (simp add: mag_Bytes_pos)
  qed
qed

lemma Sign_S_encoding:
  assumes "0 \<le> x" and "x < 2 ^ 256"
  shows "Sign_S x = replicate (32 - length (Bytes x)) 0 @ Bytes x"
    and "length (Sign_S x) = 32"
    and "SetBytes (Sign_S x) = x"
proof -
  from assms have "x < 256 ^ 32" by simp
  then have len: "length (mag_Bytes x) \<le> 32"
    by (rule length_mag_Bytes)
  from assms have B: "Bytes x = mag_Bytes x"
    by (simp add: Bytes_def)
  show 1: "Sign_S x = replicate (32 - length (Bytes x)) 0 @ Bytes x"
    using len by (auto simp: Sign_S_def Let_def sizeFr_def B copy_def)
  show "length (Sign_S x) = 32"
    unfolding 1 using len by (simp add: B)
  show "SetBytes (Sign_S x) = x"
    unfolding 1 using assms by (simp add: SetBytes_replicate_0 B SetBytes_mag_Bytes)
qed

lemma Sign_success:
  assumes "Sign tw hFunc privKey message st = Some ((sg, None), st')"
  shows "IsOnCurve tw (ScalarMul tw (Base (GetEdwardsCurve tw)) (blindingFactor tw privKey message))"
    and "Write hFunc (Reset hFunc st)
           (dataToHash tw (ScalarMul tw (Base (GetEdwardsCurve tw)) (blindingFactor tw privKey message))
              (A (PublicKey privKey)) message) = (None, st')"
    and "Order (GetEdwardsCurve tw) \<noteq> 0"
    and "sg = \<lparr>R = ScalarMul tw (Base (GetEdwardsCurve tw)) (blindingFactor tw privKey message),
               S = Sign_S ((SetBytes (Sum hFunc st' []) * SetBytes (scalar privKey)
                             + blindingFactor tw privKey message) mod \<bar>Order (GetEdwardsCurve tw)\<bar>)\<rparr>"
  using assms
  by (auto simp: Sign_def Let_def Sign_bs_def split: if_splits prod.splits option.splits)

lemma blindingFactor_nonneg: "0 \<le> blindingFactor tw privKey message"
  by (simp add: blindingFactor_def Let_def SetBytes_nonneg)

lemma GenerateKey_PublicKey:
  "PublicKey (snd (GenerateKey tw seed)) = fst (GenerateKey tw seed)"
  "A (fst (GenerateKey tw seed)) =
     ScalarMul tw (Base (GetEdwardsCurve tw)) (SetBytes (scalar (snd (GenerateKey tw seed))))"
  by (simp_all add: GenerateKey_def Let_def)

subsection \<open>The mock curve obeys the laws assumed of the curve\<close>

lemma mock_env_simps:
  "Order (GetEdwardsCurve (mock_env q onc)) = q"
  "Base (GetEdwardsCurve (mock_env q onc)) = \<lparr>X = 1, Y = 0\<rparr>"
  "Cofactor (GetEdwardsCurve (mock_env q onc)) = 8"
  "ScalarMul (mock_env q onc) p k = \<lparr>X = (X p * k) mod q, Y = (Y p * k) mod q\<rparr>"
  "Add (mock_env q onc) p r = \<lparr>X = (X p + X r) mod q, Y = (Y p + Y r) mod q\<rparr>"
  "IsOnCurve (mock_env q onc) p = onc p"
  "fr_ToBigInt (mock_env q onc) e = e"
  by (simp_all add: mock_env_def)

lemma mock_tw_laws:
  "0 < Order (GetEdwardsCurve mock_tw)"
  "Order (GetEdwardsCurve mock_tw) \<le> 2 ^ 256"
  "\<forall>k. ScalarMul mock_tw (Base (GetEdwardsCurve mock_tw)) (k mod Order (GetEdwardsCurve mock_tw)) =
       ScalarMul mock_tw (Base (GetEdwardsCurve mock_tw)) k"
  "\<forall>a b. ScalarMul mock_tw (Base (GetEdwardsCurve mock_tw)) (a + b) =
       Add mock_tw (ScalarMul mock_tw (Base (GetEdwardsCurve mock_tw)) a)
                   (ScalarMul mock_tw (Base (GetEdwardsCurve mock_tw)) b)"
  "\<forall>a b. ScalarMul mock_tw (ScalarMul mock_tw (Base (GetEdwardsCurve mock_tw)) a) b =
       ScalarMul mock_tw (Base (GetEdwardsCurve mock_tw)) (a * b)"
  "IsOnCurve mock_tw (Base (GetEdwardsCurve mock_tw))"
  "\<forall>p k. IsOnCurve mock_tw p \<longrightarrow> IsOnCurve mock_tw (ScalarMul mock_tw p k)"
  "\<forall>p q. IsOnCurve mock_tw p \<longrightarrow> IsOnCurve mock_tw q \<longrightarrow> IsOnCurve mock_tw (Add mock_tw p q)"
  "\<forall>p q. Add mock_tw p q = Add mock_tw q p"
  by (simp_all add: mock_tw_def mock_env_simps mock_order_def mod_add_eq mod_mult_left_eq add.commute)

lemma mock_Hash_Reset: "\<forall>s s'. Reset mock_Hash s = Reset mock_Hash s'"
  by (simp add: mock_Hash_def)

lemma mock_tw_laws_nonneg:
  "\<forall>k\<ge>0. ScalarMul mock_tw (Base (GetEdwardsCurve mock_tw)) (k mod Order (GetEdwardsCurve mock_tw)) =
       ScalarMul mock_tw (Base (GetEdwardsCurve mock_tw)) k"
  "\<forall>a\<ge>0. \<forall>b\<ge>0. ScalarMul mock_tw (Base (GetEdwardsCurve mock_tw)) (a + b) =
       Add mock_tw (ScalarMul mock_tw (Base (GetEdwardsCurve mock_tw)) a)
                   (ScalarMul mock_tw (Base (GetEdwardsCurve mock_tw)) b)"
  "\<forall>a\<ge>0. \<forall>b\<ge>0. ScalarMul mock_tw (ScalarMul mock_tw (Base (GetEdwardsCurve mock_tw)) a) b =
       ScalarMul mock_tw (Base (GetEdwardsCurve mock_tw)) (a * b)"
  using mock_tw_laws(3-5) by blast+



subsection \<open>Evaluations on the mock curve\<close>

lemma mock_Sign:
  "Sign mock_tw mock_Hash (snd (GenerateKey mock_tw zero_seed)) test_message [] =
     Some ((mock_sig, None), mock_st)"
  by code_simp

lemma mock_Verify_pre:
  "IsOnCurve mock_tw (A (fst mock_key))"
  "Write mock_Hash (Reset mock_Hash []) (dataToHash mock_tw (R mock_sig) (A (fst mock_key)) test_message) =
     (None, mock_st)"
  by code_simp+

section \<open>Sizes\<close>

text \<open>
  C9 (as amended). The constant \<open>sizePrivateKey\<close> is 128, not 96: the 32-byte scalar, the
  32-byte auxiliary seed and the 64-byte public key, that is \<open>3 * 32 + 32\<close>.
\<close>

theorem sizePrivateKey_is_128:
  "sizePrivateKey = 128 \<and> sizePrivateKey = sizeFr + 32 + sizePublicKey \<and>
   sizeFr = 32 \<and> sizePublicKey = 64"
  by (simp add: sizePrivateKey_def sizePublicKey_def sizeFr_def)

text \<open>C9 as stated fails: the serialized size of a private key is not 96.\<close>

theorem sizePrivateKey_not_96: "sizePrivateKey \<noteq> 96"
  by (simp add: sizePrivateKey_def sizeFr_def)

section \<open>GenerateKey\<close>

text \<open>
  The key pair depends on the seed only through its digest, and on the environment only
  through the base point and the scalar multiplication.
\<close>

lemma GenerateKey_depends_on_digest:
  assumes "Sum512 tw1 seed1 = Sum512 tw2 seed2"
    and "Base (GetEdwardsCurve tw1) = Base (GetEdwardsCurve tw2)"
    and "ScalarMul tw1 = ScalarMul tw2"
  shows "GenerateKey tw1 seed1 = GenerateKey tw2 seed2"
  using assms by (simp add: GenerateKey_def Let_def)



text \<open>
  C2, evaluated for the seed of 32 zero bytes. The auxiliary seed is the upper half of the
  digest. The scalar is not the reversal of the pruned lower half: the loop starts at
  \<open>j = sizeFr\<close>, so it reverses the bytes 0 to 32 of the digest, and the scalar is the
  bytes 32, 31, \<dots>, 1 (see \<open>GenerateKey_scalar\<close>): byte 32 of the digest comes first, the
  pruned byte 0 is left out.
\<close>

theorem GenerateKey_zero_seed_scalar:
  "Sum512 mock_tw zero_seed = blake2b_zero_seed \<and>
   randSrc (snd (GenerateKey mock_tw zero_seed)) = drop 32 blake2b_zero_seed \<and>
   scalar (snd (GenerateKey mock_tw zero_seed)) =
     [222, 71, 161, 124, 75, 111, 206, 229, 77, 187, 35, 51, 236, 29, 184, 207,
      6, 156, 74, 99, 105, 193, 182, 6, 20, 3, 163, 161, 151, 58, 167, 183] \<and>
   rev (take 32 (prune blake2b_zero_seed)) =
     [71, 161, 124, 75, 111, 206, 229, 77, 187, 35, 51, 236, 29, 184, 207, 6,
      156, 74, 99, 105, 193, 182, 6, 20, 3, 163, 161, 151, 58, 167, 183, 152] \<and>
   scalar (snd (GenerateKey mock_tw zero_seed)) \<noteq> rev (take 32 (prune blake2b_zero_seed))"
  by code_simp

text \<open>
  C3, evaluated for the seed of 32 zero bytes. The stored scalar is big-endian: byte 0 is
  its highest-order byte and byte 31 its lowest-order byte. Byte 0 is 222, with bit 7 set;
  byte 31 is 183, with its three low bits set. Read from the other end the pattern fails
  as well: the three low bits of byte 0 are not clear and bit 7 of byte 31 is set.
\<close>

theorem GenerateKey_zero_seed_not_clamped:
  "length (scalar (snd (GenerateKey mock_tw zero_seed))) = 32 \<and>
   scalar (snd (GenerateKey mock_tw zero_seed)) ! 0 = 222 \<and>
   scalar (snd (GenerateKey mock_tw zero_seed)) ! 31 = 183 \<and>
   (scalar (snd (GenerateKey mock_tw zero_seed)) ! 0) AND 0x80 = 0x80 \<and>
   (scalar (snd (GenerateKey mock_tw zero_seed)) ! 31) AND 0x07 = 0x07 \<and>
   (scalar (snd (GenerateKey mock_tw zero_seed)) ! 0) AND 0x07 \<noteq> 0 \<and>
   (scalar (snd (GenerateKey mock_tw zero_seed)) ! 31) AND 0x80 \<noteq> 0"
  by code_simp

section \<open>Errors of Verify and Sign\<close>

text \<open>
  C10. \<^verbatim>\<open>Verify\<close> never returns \<open>true\<close> together with an error: whenever the error it
  returns is not nil, the boolean it returns is \<open>false\<close>.
\<close>

theorem Verify_error_implies_false:
  "snd (fst (Verify tw hFunc sig message pub st)) \<noteq> None \<Longrightarrow>
   fst (fst (Verify tw hFunc sig message pub st)) = False"
  by (auto simp: Verify_def Let_def split: prod.splits option.splits if_splits)

text \<open>C10 on the mock curve, for a public key that is not on the curve.\<close>

theorem Verify_error_implies_false_witness:
  "snd (fst (Verify mock_tw mock_Hash mock_sig test_message \<lparr>A = \<lparr>X = 0, Y = 1\<rparr>\<rparr> [])) \<noteq> None \<and>
   fst (fst (Verify mock_tw mock_Hash mock_sig test_message \<lparr>A = \<lparr>X = 0, Y = 1\<rparr>\<rparr> [])) = False"
proof -
  have e: "snd (fst (Verify mock_tw mock_Hash mock_sig test_message \<lparr>A = \<lparr>X = 0, Y = 1\<rparr>\<rparr> [])) \<noteq> None"
    by code_simp
  from e Verify_error_implies_false [OF e] show ?thesis
    by (rule conjI)
qed

text \<open>
  C6. \<^verbatim>\<open>Verify\<close> returns the error \<open>errNotOnCurve\<close> when the public key's point is not
  on the curve, and (once the hash has accepted the data) when \<open>lhs\<close> or \<open>rhs\<close> is not on
  the curve; when all three points are on the curve and \<open>lhs\<close> differs from \<open>rhs\<close>, it
  returns \<open>false\<close> with a nil error.
\<close>

theorem Verify_error_cases:
  "let w = Write hFunc (Reset hFunc st) (dataToHash tw (R sig) (A pub) message);
       lhs = Verify_lhs tw sig;
       rhs = Verify_rhs tw sig pub (SetBytes (Sum hFunc (snd w) []));
       res = fst (Verify tw hFunc sig message pub st)
   in (\<not> IsOnCurve tw (A pub) \<longrightarrow> res = (False, Some errNotOnCurve)) \<and>
      (IsOnCurve tw (A pub) \<and> fst w = None \<and> \<not> IsOnCurve tw lhs \<longrightarrow>
         res = (False, Some errNotOnCurve)) \<and>
      (IsOnCurve tw (A pub) \<and> fst w = None \<and> IsOnCurve tw lhs \<and> \<not> IsOnCurve tw rhs \<longrightarrow>
         res = (False, Some errNotOnCurve)) \<and>
      (IsOnCurve tw (A pub) \<and> fst w = None \<and> IsOnCurve tw lhs \<and> IsOnCurve tw rhs \<and> lhs \<noteq> rhs \<longrightarrow>
         res = (False, None))"
proof (cases "IsOnCurve tw (A pub)")
  case False
  then show ?thesis
    by (simp add: Let_def Verify_A_off_curve)
next
  case on: True
  show ?thesis
  proof (cases "fst (Write hFunc (Reset hFunc st) (dataToHash tw (R sig) (A pub) message))")
    case (Some e)
    with on show ?thesis by (simp add: Let_def)
  next
    case None
    then have w: "Write hFunc (Reset hFunc st) (dataToHash tw (R sig) (A pub) message) =
        (None, snd (Write hFunc (Reset hFunc st) (dataToHash tw (R sig) (A pub) message)))"
      by (simp add: prod_eq_iff)
    show ?thesis
      unfolding Verify_after_Write [OF on w]
      using on None by (simp add: Let_def)
  qed
qed

text \<open>
  The four cases of C6 on the mock curve: a public key off the curve; \<open>lhs\<close> off the
  curve (for the on-curve test \<open>X p \<noteq> 0\<close>); \<open>rhs\<close> off the curve; and a signature
  checked against another message.
\<close>

theorem Verify_error_cases_witness:
  "fst (Verify mock_tw mock_Hash mock_sig test_message \<lparr>A = \<lparr>X = 0, Y = 1\<rparr>\<rparr> []) =
     (False, Some errNotOnCurve) \<and>
   fst (Verify (mock_env mock_order (\<lambda>p. X p \<noteq> 0)) mock_Hash
          \<lparr>R = \<lparr>X = 1, Y = 0\<rparr>, S = replicate 32 0\<rparr> test_message \<lparr>A = \<lparr>X = 1, Y = 0\<rparr>\<rparr> []) =
     (False, Some errNotOnCurve) \<and>
   fst (Verify mock_tw mock_Hash
          \<lparr>R = \<lparr>X = 0, Y = 1\<rparr>, S = replicate 32 0\<rparr> test_message \<lparr>A = \<lparr>X = 1, Y = 0\<rparr>\<rparr> []) =
     (False, Some errNotOnCurve) \<and>
   fst (Verify mock_tw mock_Hash mock_sig [84, 101, 115, 116] (fst mock_key) []) = (False, None)"
proof (intro conjI)
  show "fst (Verify mock_tw mock_Hash mock_sig test_message \<lparr>A = \<lparr>X = 0, Y = 1\<rparr>\<rparr> []) =
     (False, Some errNotOnCurve)"
    using Verify_error_cases [of mock_Hash "[]" mock_tw mock_sig "\<lparr>A = \<lparr>X = 0, Y = 1\<rparr>\<rparr>" test_message,
        unfolded Let_def, THEN conjunct1]
    by (rule mp) code_simp
  show "fst (Verify (mock_env mock_order (\<lambda>p. X p \<noteq> 0)) mock_Hash
          \<lparr>R = \<lparr>X = 1, Y = 0\<rparr>, S = replicate 32 0\<rparr> test_message \<lparr>A = \<lparr>X = 1, Y = 0\<rparr>\<rparr> []) =
     (False, Some errNotOnCurve)"
    using Verify_error_cases [of mock_Hash "[]" "mock_env mock_order (\<lambda>p. X p \<noteq> 0)"
        "\<lparr>R = \<lparr>X = 1, Y = 0\<rparr>, S = replicate 32 0\<rparr>" "\<lparr>A = \<lparr>X = 1, Y = 0\<rparr>\<rparr>" test_message,
        unfolded Let_def, THEN conjunct2, THEN conjunct1]
    by (rule mp) code_simp
  show "fst (Verify mock_tw mock_Hash
          \<lparr>R = \<lparr>X = 0, Y = 1\<rparr>, S = replicate 32 0\<rparr> test_message \<lparr>A = \<lparr>X = 1, Y = 0\<rparr>\<rparr> []) =
     (False, Some errNotOnCurve)"
    using Verify_error_cases [of mock_Hash "[]" mock_tw
        "\<lparr>R = \<lparr>X = 0, Y = 1\<rparr>, S = replicate 32 0\<rparr>" "\<lparr>A = \<lparr>X = 1, Y = 0\<rparr>\<rparr>" test_message,
        unfolded Let_def, THEN conjunct2, THEN conjunct2, THEN conjunct1]
    by (rule mp) code_simp
  show "fst (Verify mock_tw mock_Hash mock_sig [84, 101, 115, 116] (fst mock_key) []) = (False, None)"
    using Verify_error_cases [of mock_Hash "[]" mock_tw mock_sig "fst mock_key" "[84, 101, 115, 116]",
        unfolded Let_def, THEN conjunct2, THEN conjunct2, THEN conjunct2]
    by (rule mp) code_simp
qed

text \<open>
  C7. When \<^verbatim>\<open>Sign\<close> fails, because the commitment \<open>R\<close> is not on the curve or because
  the hash function's \<open>Write\<close> reports an error, it returns that error with the zero-value
  signature; and whatever error \<^verbatim>\<open>Sign\<close> returns, the signature beside it is the zero value.
\<close>

theorem Sign_failure_zero_Signature:
  "(\<not> IsOnCurve tw (ScalarMul tw (Base (GetEdwardsCurve tw)) (blindingFactor tw privKey message)) \<longrightarrow>
      Sign tw hFunc privKey message st = Some ((Signature_zero, Some errNotOnCurve), st)) \<and>
   (IsOnCurve tw (ScalarMul tw (Base (GetEdwardsCurve tw)) (blindingFactor tw privKey message)) \<and>
    Write hFunc (Reset hFunc st)
      (dataToHash tw (ScalarMul tw (Base (GetEdwardsCurve tw)) (blindingFactor tw privKey message))
         (A (PublicKey privKey)) message) = (Some e, st2) \<longrightarrow>
      Sign tw hFunc privKey message st = Some ((Signature_zero, Some e), st2)) \<and>
   (Sign tw hFunc privKey message st = Some ((sg, Some e'), st') \<longrightarrow> sg = Signature_zero)"
proof (intro conjI impI)
  assume "\<not> IsOnCurve tw (ScalarMul tw (Base (GetEdwardsCurve tw)) (blindingFactor tw privKey message))"
  then show "Sign tw hFunc privKey message st = Some ((Signature_zero, Some errNotOnCurve), st)"
    by (rule Sign_R_off_curve)
next
  assume "IsOnCurve tw (ScalarMul tw (Base (GetEdwardsCurve tw)) (blindingFactor tw privKey message)) \<and>
    Write hFunc (Reset hFunc st)
      (dataToHash tw (ScalarMul tw (Base (GetEdwardsCurve tw)) (blindingFactor tw privKey message))
         (A (PublicKey privKey)) message) = (Some e, st2)"
  then show "Sign tw hFunc privKey message st = Some ((Signature_zero, Some e), st2)"
    by (simp add: Sign_after_Write)
next
  assume "Sign tw hFunc privKey message st = Some ((sg, Some e'), st')"
  then show "sg = Signature_zero"
    by (auto simp: Sign_def Let_def split: if_splits prod.splits option.splits)
qed

text \<open>
  C7 on the mock curve: with an on-curve test that rejects every point, and with a hash
  object whose \<open>Write\<close> fails.
\<close>

theorem Sign_failure_zero_Signature_witness:
  "Sign (mock_env mock_order (\<lambda>p. False)) mock_Hash (snd mock_key) test_message [] =
     Some ((Signature_zero, Some errNotOnCurve), []) \<and>
   Sign mock_tw failing_Hash (snd mock_key) test_message [1, 2] =
     Some ((Signature_zero, Some (errOther ''write failed'')), []) \<and>
   fst (fst (the (Sign mock_tw failing_Hash (snd mock_key) test_message [1, 2]))) = Signature_zero"
proof (intro conjI)
  show "Sign (mock_env mock_order (\<lambda>p. False)) mock_Hash (snd mock_key) test_message [] =
     Some ((Signature_zero, Some errNotOnCurve), [])"
    using Sign_failure_zero_Signature [of "mock_env mock_order (\<lambda>p. False)" "snd mock_key" test_message
        mock_Hash "[]", THEN conjunct1]
    by (rule mp) code_simp
  show "Sign mock_tw failing_Hash (snd mock_key) test_message [1, 2] =
     Some ((Signature_zero, Some (errOther ''write failed'')), [])"
    using Sign_failure_zero_Signature [of mock_tw "snd mock_key" test_message
        failing_Hash "[1, 2]" "errOther ''write failed''" "[]", THEN conjunct2, THEN conjunct1]
    by (rule mp) code_simp
  show "fst (fst (the (Sign mock_tw failing_Hash (snd mock_key) test_message [1, 2]))) = Signature_zero"
    using Sign_failure_zero_Signature [of mock_tw "snd mock_key" test_message
        failing_Hash "[1, 2]" "errOther ''write failed''" "[]"
        "fst (fst (the (Sign mock_tw failing_Hash (snd mock_key) test_message [1, 2])))"
        "errOther ''write failed''" "[]",
        THEN conjunct2, THEN conjunct2]
    by (rule mp) code_simp
qed

section \<open>The signature scalar and the verification equation\<close>

text \<open>
  C5. When \<^verbatim>\<open>Sign\<close> succeeds, for a group order between 1 and \<open>2 ^ 256\<close>, the field \<open>S\<close>
  of the signature is the 32-byte big-endian encoding of \<open>(r + c \<cdot> scalar) mod Order\<close>: its
  value is that integer, and it is the minimal encoding (no leading zero byte) left-padded
  with zero bytes to 32 bytes. Here \<open>r\<close> is the blinding factor and \<open>c\<close> the digest of the
  hash after the write, read big-endian.
\<close>

theorem Sign_S_is_padded_big_endian:
  assumes "0 < Order (GetEdwardsCurve tw)" and "Order (GetEdwardsCurve tw) \<le> 2 ^ 256"
    and "Sign tw hFunc privKey message st = Some ((sg, None), st')"
  shows "let r = blindingFactor tw privKey message;
             c = SetBytes (Sum hFunc st' []);
             s = (r + c * SetBytes (scalar privKey)) mod Order (GetEdwardsCurve tw);
             enc = Bytes s
         in length (S sg) = 32 \<and> big_endian_value (S sg) = s \<and>
            S sg = replicate (32 - length enc) 0 @ enc \<and>
            big_endian_value enc = s \<and> (enc = [] \<or> hd enc \<noteq> 0)"
proof -
  define s where "s = (blindingFactor tw privKey message + SetBytes (Sum hFunc st' []) * SetBytes (scalar privKey))
     mod Order (GetEdwardsCurve tw)"
  from assms(1) have s0: "0 \<le> s" by (simp add: s_def)
  from assms(1) have "s < Order (GetEdwardsCurve tw)" by (simp add: s_def)
  with assms(2) have s1: "s < 2 ^ 256" by simp
  have "S sg = Sign_S s"
    using Sign_success(4) [OF assms(3)] assms(1) by (simp add: s_def add.commute)
  moreover have "Bytes s = [] \<or> hd (Bytes s) \<noteq> 0"
    using s0 mag_Bytes_no_leading_zero [of s] by (cases "s = 0") (simp_all add: Bytes_def mag_Bytes_nonpos)
  moreover have "big_endian_value (Bytes s) = s"
    using s0 by (simp add: SetBytes_big_endian [symmetric] Bytes_def SetBytes_mag_Bytes)
  ultimately show ?thesis
    using Sign_S_encoding [OF s0 s1]
    by (simp add: Let_def s_def [symmetric] SetBytes_big_endian [symmetric])
qed

text \<open>C5 for the mock key pair and the message \<^verbatim>\<open>"test"\<close>.\<close>

theorem Sign_S_is_padded_big_endian_witness:
  "0 < Order (GetEdwardsCurve mock_tw) \<and> Order (GetEdwardsCurve mock_tw) \<le> 2 ^ 256 \<and>
   Sign mock_tw mock_Hash (snd (GenerateKey mock_tw zero_seed)) test_message [] =
     Some ((mock_sig, None), mock_st) \<and>
   (let r = blindingFactor mock_tw (snd (GenerateKey mock_tw zero_seed)) test_message;
        c = SetBytes (Sum mock_Hash mock_st []);
        s = (r + c * SetBytes (scalar (snd (GenerateKey mock_tw zero_seed)))) mod
              Order (GetEdwardsCurve mock_tw);
        enc = Bytes s
    in length (S mock_sig) = 32 \<and> big_endian_value (S mock_sig) = s \<and>
       S mock_sig = replicate (32 - length enc) 0 @ enc \<and>
       big_endian_value enc = s \<and> (enc = [] \<or> hd enc \<noteq> 0))"
  by (rule conjI [OF mock_tw_laws(1) conjI [OF mock_tw_laws(2) conjI [OF mock_Sign
        Sign_S_is_padded_big_endian [OF mock_tw_laws(1,2) mock_Sign]]]])

text \<open>
  C4. In \<^verbatim>\<open>Verify\<close>, once the public key has passed the on-curve test and the hash has
  accepted the data, \<open>lhs\<close> is \<open>cofactor \<cdot> (s \<cdot> Base)\<close> and \<open>rhs\<close> is
  \<open>cofactor \<cdot> (R + c \<cdot> A)\<close>, with \<open>s\<close> the field \<open>S\<close> and \<open>c\<close> the digest, both read as
  non-negative big-endian integers; the result is decided by these two points. Point
  addition is taken to be commutative, the code adding \<open>c \<cdot> A\<close> and \<open>R\<close> in that order.
\<close>

theorem Verify_sides:
  assumes "\<forall>p q. Add tw p q = Add tw q p"
    and "IsOnCurve tw (A pub)"
    and "Write hFunc (Reset hFunc st) (dataToHash tw (R sig) (A pub) message) = (None, st2)"
  shows "let s = big_endian_value (S sig);
             c = big_endian_value (Sum hFunc st2 []);
             lhs = spec_lhs tw s;
             rhs = spec_rhs tw (R sig) (A pub) c
         in 0 \<le> s \<and> 0 \<le> c \<and>
            Verify_lhs tw sig = lhs \<and>
            Verify_rhs tw sig pub (SetBytes (Sum hFunc st2 [])) = rhs \<and>
            fst (Verify tw hFunc sig message pub st) =
              (if IsOnCurve tw lhs \<and> IsOnCurve tw rhs then (lhs = rhs, None)
               else (False, Some errNotOnCurve))"
proof -
  have l: "Verify_lhs tw sig = spec_lhs tw (big_endian_value (S sig))"
    by (simp add: Verify_lhs_def spec_lhs_def cofactor_times_def Let_def SetBytes_big_endian)
  have r: "Verify_rhs tw sig pub (SetBytes (Sum hFunc st2 [])) =
      spec_rhs tw (R sig) (A pub) (big_endian_value (Sum hFunc st2 []))"
    using assms(1)
    by (simp add: Verify_rhs_def spec_rhs_def cofactor_times_def Let_def SetBytes_big_endian)
  have n: "0 \<le> big_endian_value bs" for bs
    using SetBytes_nonneg [of bs] by (simp add: SetBytes_big_endian)
  show ?thesis
    unfolding Verify_after_Write [OF assms(2,3)] l r
    by (simp add: Let_def n)
qed

text \<open>C4 for the mock key pair, its signature and the message \<^verbatim>\<open>"test"\<close>.\<close>

theorem Verify_sides_witness:
  "(\<forall>p q. Add mock_tw p q = Add mock_tw q p) \<and>
   IsOnCurve mock_tw (A (fst mock_key)) \<and>
   Write mock_Hash (Reset mock_Hash []) (dataToHash mock_tw (R mock_sig) (A (fst mock_key)) test_message) =
     (None, mock_st) \<and>
   (let s = big_endian_value (S mock_sig);
        c = big_endian_value (Sum mock_Hash mock_st []);
        lhs = spec_lhs mock_tw s;
        rhs = spec_rhs mock_tw (R mock_sig) (A (fst mock_key)) c
    in 0 \<le> s \<and> 0 \<le> c \<and>
       Verify_lhs mock_tw mock_sig = lhs \<and>
       Verify_rhs mock_tw mock_sig (fst mock_key) (SetBytes (Sum mock_Hash mock_st [])) = rhs \<and>
       fst (Verify mock_tw mock_Hash mock_sig test_message (fst mock_key) []) =
         (if IsOnCurve mock_tw lhs \<and> IsOnCurve mock_tw rhs then (lhs = rhs, None)
          else (False, Some errNotOnCurve)))"
  by (rule conjI [OF mock_tw_laws(9) conjI [OF mock_Verify_pre(1) conjI [OF mock_Verify_pre(2)
        Verify_sides [OF mock_tw_laws(9) mock_Verify_pre]]]])

section \<open>Signing, then verifying\<close>

text \<open>
  C1. For a key pair made by \<^verbatim>\<open>GenerateKey\<close> and any message, if \<^verbatim>\<open>Sign\<close> succeeds then
  \<^verbatim>\<open>Verify\<close>, given the signature, the message, the key's public key and the same hash
  object, returns \<open>true\<close> and no error. The imported curve is assumed to obey the group
  laws used, for non-negative scalars, the only ones the code passes (the base point has
  the given order, scalar multiplication of the base point is additive and multiplicative
  in the scalar), the curve to be closed under both operations,
  the order to fit in 32 bytes, and \<open>Reset\<close> to bring the hash object to one initial state.
\<close>

theorem Verify_accepts_Sign:
  fixes tw :: "('f::zero) env"
  assumes order: "0 < Order (GetEdwardsCurve tw)" "Order (GetEdwardsCurve tw) \<le> 2 ^ 256"
    and period: "\<forall>k\<ge>0. ScalarMul tw (Base (GetEdwardsCurve tw)) (k mod Order (GetEdwardsCurve tw)) =
                     ScalarMul tw (Base (GetEdwardsCurve tw)) k"
    and distrib: "\<forall>a\<ge>0. \<forall>b\<ge>0. ScalarMul tw (Base (GetEdwardsCurve tw)) (a + b) =
                     Add tw (ScalarMul tw (Base (GetEdwardsCurve tw)) a)
                            (ScalarMul tw (Base (GetEdwardsCurve tw)) b)"
    and assoc: "\<forall>a\<ge>0. \<forall>b\<ge>0. ScalarMul tw (ScalarMul tw (Base (GetEdwardsCurve tw)) a) b =
                     ScalarMul tw (Base (GetEdwardsCurve tw)) (a * b)"
    and base: "IsOnCurve tw (Base (GetEdwardsCurve tw))"
    and mul_closed: "\<forall>p k. IsOnCurve tw p \<longrightarrow> IsOnCurve tw (ScalarMul tw p k)"
    and add_closed: "\<forall>p q. IsOnCurve tw p \<longrightarrow> IsOnCurve tw q \<longrightarrow> IsOnCurve tw (Add tw p q)"
    and reset: "\<forall>s s'. Reset hFunc s = Reset hFunc s'"
    and sign: "Sign tw hFunc (snd (GenerateKey tw seed)) message st = Some ((sg, None), st')"
  shows "fst (Verify tw hFunc sg message (Public (snd (GenerateKey tw seed))) st') = (True, None)"
proof -
  define B where "B = Base (GetEdwardsCurve tw)"
  define n where "n = Order (GetEdwardsCurve tw)"
  define priv where "priv = snd (GenerateKey tw seed)"
  define pub where "pub = Public priv"
  define a where "a = SetBytes (scalar priv)"
  define r where "r = blindingFactor tw priv message"
  define c where "c = SetBytes (Sum hFunc st' [])"
  define s where "s = (c * a + r) mod n"
  have a0: "0 \<le> a" and c0: "0 \<le> c" and r0: "0 \<le> r"
    by (simp_all add: a_def c_def r_def SetBytes_nonneg blindingFactor_nonneg)
  then have ca0: "0 \<le> c * a" and car0: "0 \<le> c * a + r"
    by simp_all
  have pubA: "A pub = ScalarMul tw B a"
    by (simp add: pub_def Public_def priv_def GenerateKey_PublicKey a_def B_def)
  have privA: "A (PublicKey priv) = A pub"
    by (simp add: pub_def Public_def)
  note ss = Sign_success [OF sign, folded priv_def, folded r_def B_def c_def a_def n_def, unfolded privA]
  from order have npos: "\<bar>n\<bar> = n" by (simp add: n_def)
  have sg: "sg = \<lparr>R = ScalarMul tw B r, S = Sign_S s\<rparr>"
    using ss(4) by (simp add: s_def npos)
  have onA: "IsOnCurve tw (A pub)"
    unfolding pubA using base mul_closed by (simp add: B_def)
  have "Reset hFunc st' = Reset hFunc st"
    using reset by blast
  with ss(2) have w: "Write hFunc (Reset hFunc st') (dataToHash tw (R sg) (A pub) message) = (None, st')"
    by (simp add: sg)
  have s0: "0 \<le> s" and s1: "s < 2 ^ 256"
    using order by (simp_all add: s_def n_def [symmetric]) (smt (verit) pos_mod_bound)
  have "ScalarMul tw B (SetBytes (S sg)) = ScalarMul tw B s"
    by (simp add: sg Sign_S_encoding(3) [OF s0 s1])
  also have "\<dots> = ScalarMul tw B (c * a + r)"
    using period car0 by (simp add: s_def B_def n_def)
  also have "\<dots> = Add tw (ScalarMul tw B (c * a)) (ScalarMul tw B r)"
    using distrib ca0 r0 by (simp add: B_def)
  also have "ScalarMul tw B (c * a) = ScalarMul tw (A pub) c"
    unfolding pubA using assoc a0 c0 by (simp add: B_def mult.commute)
  finally have inner: "ScalarMul tw B (SetBytes (S sg)) = Add tw (ScalarMul tw (A pub) c) (R sg)"
    by (simp add: sg)
  have eq: "Verify_lhs tw sg = Verify_rhs tw sg pub c"
    using inner by (simp add: Verify_lhs_def Verify_rhs_def Let_def B_def)
  have "IsOnCurve tw (R sg)"
    using ss(1) by (simp add: sg)
  with onA have "IsOnCurve tw (Verify_rhs tw sg pub c)"
    using mul_closed add_closed by (simp add: Verify_rhs_def Let_def)
  with eq have "fst (Verify tw hFunc sg message pub st') = (True, None)"
    unfolding Verify_after_Write [OF onA w] c_def [symmetric]
    by (simp add: Let_def)
  then show ?thesis
    by (simp add: pub_def priv_def)
qed

text \<open>C1 for the mock key pair and the message \<^verbatim>\<open>"test"\<close>.\<close>

theorem Verify_accepts_Sign_witness:
  "Sign mock_tw mock_Hash (snd (GenerateKey mock_tw zero_seed)) test_message [] =
     Some ((mock_sig, None), mock_st) \<and>
   fst (Verify mock_tw mock_Hash mock_sig test_message
          (Public (snd (GenerateKey mock_tw zero_seed))) mock_st) = (True, None)"
  using Verify_accepts_Sign [OF mock_tw_laws(1,2) mock_tw_laws_nonneg mock_tw_laws(6-8) mock_Hash_Reset mock_Sign] mock_Sign
  by (rule conjI [rotated])

end
